theory Spec2Isabelle
  imports Main
begin

section \<open>The user context of the dashboard (src/context/UserContext.tsx)\<close>

text \<open>
  The provider keeps four pieces of React state (user, roles, permissions, loading) and
  fills them from three calls to the backend client: the current user, the user's joined
  role rows, and the resource permissions of the user's roles. The calls are the only
  inputs of the routine, so the backend is a record of their outcomes; everything the
  routine does (state setters, calls, the console) is an effect of its trace, in the
  order of the source.
\<close>

subsection \<open>Data\<close>

text \<open>An error object: what a call rejects with, what a query returns as \<open>error\<close>.\<close>

datatype err = Error string

text \<open>The SDK's \<open>User\<close>; only \<open>authUser.id\<close> is read.\<close>

record User =
  id' :: string

text \<open>
  A row of the \<open>roles\<close> table as selected by \<open>roles(id, role_name)\<close>. The row type is
  declared in \<open>@/lib/database.types\<close>; both columns are taken as nullable, the most
  general reading, since the routine filters them by truthiness.
\<close>

record Row =
  role_id :: "int option"
  role_name :: "string option"

text \<open>\<open>SupabaseUserRoleJoinResultItem\<close>: each \<open>user_roles\<close> row carries an array of roles.\<close>

record SupabaseUserRoleJoinResultItem =
  roles' :: "Row list"

text \<open>A row of \<open>resource_permissions\<close> as selected by \<open>resource_path\<close>.\<close>

record PermissionRow =
  resource_path :: string

text \<open>What a query resolves to: \<open>{ data, error }\<close>, each of them possibly null.\<close>

record 'row QueryResult =
  data :: "'row list option"
  error :: "err option"

text \<open>The outcome of an \<open>await\<close>: the promise rejects (the await throws) or resolves.\<close>

datatype 'a awaited = Rejected err | Resolved 'a

text \<open>
  The backend as the routine sees it: \<open>supabase.auth.getUser()\<close>, of which only
  \<open>data.user\<close> is read; the \<open>user_roles\<close> query for a user id; the
  \<open>resource_permissions\<close> query for a list of role ids (with \<open>can_access = true\<close>).
\<close>

record backend =
  getUser :: "User option awaited"
  select_user_roles :: "string \<Rightarrow> SupabaseUserRoleJoinResultItem QueryResult awaited"
  select_resource_permissions :: "int list \<Rightarrow> PermissionRow QueryResult awaited"

text \<open>\<open>UserContextType\<close>: the state the provider exposes.\<close>

record UserContextType =
  user :: "User option"
  roles :: "string list option"
  permissions :: "string set option"
  loading :: bool

text \<open>The session handed to the auth listener; \<open>session?.user\<close> may be absent.\<close>

record Session =
  session_user :: "User option"

text \<open>One observable step of the component.\<close>

datatype effect =
    SetUser "User option"
  | SetRoles "string list option"
  | SetPermissions "string set option"
  | SetLoading bool
  | CallGetUser
  | QueryUserRoles string
  | QueryResourcePermissions "int list"
  | ConsoleError err

subsection \<open>State\<close>

text \<open>The \<open>useState\<close> initial values.\<close>

definition initialState :: UserContextType where
  "initialState = \<lparr>user = None, roles = None, permissions = None, loading = True\<rparr>"

fun applyEffect :: "UserContextType \<Rightarrow> effect \<Rightarrow> UserContextType" where
  "applyEffect s (SetUser u) = s\<lparr>user := u\<rparr>"
| "applyEffect s (SetRoles r) = s\<lparr>roles := r\<rparr>"
| "applyEffect s (SetPermissions p) = s\<lparr>permissions := p\<rparr>"
| "applyEffect s (SetLoading l) = s\<lparr>loading := l\<rparr>"
| "applyEffect s CallGetUser = s"
| "applyEffect s (QueryUserRoles uid) = s"
| "applyEffect s (QueryResourcePermissions ids) = s"
| "applyEffect s (ConsoleError e) = s"

definition runEffects :: "UserContextType \<Rightarrow> effect list \<Rightarrow> UserContextType" where
  "runEffects s effs = foldl applyEffect s effs"

subsection \<open>The fetch routine\<close>

text \<open>\<open>Boolean(x)\<close> on a nullable string and on a nullable number.\<close>

fun BooleanString :: "string option \<Rightarrow> bool" where
  "BooleanString None = False"
| "BooleanString (Some s) = (s \<noteq> [])"

fun BooleanNumber :: "int option \<Rightarrow> bool" where
  "BooleanNumber None = False"
| "BooleanNumber (Some n) = (n \<noteq> 0)"

text \<open>\<open>userRolesData || []\<close>, and the same shape for \<open>permissionsData?.map(...) || []\<close>.\<close>

definition orEmpty :: "'a list option \<Rightarrow> 'a list" where
  "orEmpty d = (case d of None \<Rightarrow> [] | Some rows \<Rightarrow> rows)"

text \<open>\<open>flatMap(ur => ur.roles.map(role => role.role_name)).filter(Boolean)\<close>\<close>

definition fetchedRoles :: "SupabaseUserRoleJoinResultItem list \<Rightarrow> string list" where
  "fetchedRoles typedUserRolesData =
     map the (filter BooleanString
       (concat (map (\<lambda>ur. map role_name (roles' ur)) typedUserRolesData)))"

text \<open>\<open>flatMap(ur => ur.roles.map(role => role.id)).filter(Boolean)\<close>\<close>

definition roleIds :: "SupabaseUserRoleJoinResultItem list \<Rightarrow> int list" where
  "roleIds typedUserRolesData =
     map the (filter BooleanNumber
       (concat (map (\<lambda>ur. map role_id (roles' ur)) typedUserRolesData)))"

text \<open>
  The set built from the permission rows; the root path is added when the set is not
  empty.
\<close>

definition fetchedPermissions :: "PermissionRow list option \<Rightarrow> string set" where
  "fetchedPermissions permissionsData =
     (let paths = set (map resource_path (orEmpty permissionsData))
      in if card paths > 0 then insert ''/'' paths else paths)"

text \<open>
  The part of the \<open>try\<close> block under \<open>if (authUser)\<close>. The result is the effects carried
  out and, when the block threw, the exception.
\<close>

definition rolesAndPermissions :: "backend \<Rightarrow> User \<Rightarrow> effect list \<times> err option" where
  "rolesAndPermissions b authUser =
     (case select_user_roles b (id' authUser) of
        Rejected e \<Rightarrow> ([QueryUserRoles (id' authUser)], Some e)
      | Resolved res \<Rightarrow>
          (case error res of
             Some userRolesError \<Rightarrow> ([QueryUserRoles (id' authUser)], Some userRolesError)
           | None \<Rightarrow>
               (let typedUserRolesData = orEmpty (data res);
                    names = fetchedRoles typedUserRolesData;
                    done = [QueryUserRoles (id' authUser), SetRoles (Some names)]
                in if length names > 0 then
                     (let ids = roleIds typedUserRolesData;
                          asked = done @ [QueryResourcePermissions ids]
                      in case select_resource_permissions b ids of
                           Rejected e \<Rightarrow> (asked, Some e)
                         | Resolved pres \<Rightarrow>
                             (case error pres of
                                Some permissionsError \<Rightarrow> (asked, Some permissionsError)
                              | None \<Rightarrow>
                                  (asked @ [SetPermissions (Some (fetchedPermissions (data pres)))],
                                   None)))
                   else (done @ [SetPermissions (Some {})], None))))"

text \<open>The \<open>try\<close> block.\<close>

definition tryBlock :: "backend \<Rightarrow> effect list \<times> err option" where
  "tryBlock b =
     (case getUser b of
        Rejected e \<Rightarrow> ([CallGetUser], Some e)
      | Resolved authUser \<Rightarrow>
          (case authUser of
             Some u \<Rightarrow>
               (case rolesAndPermissions b u of
                  (effs, thrown) \<Rightarrow> ([CallGetUser, SetUser authUser] @ effs, thrown))
           | None \<Rightarrow> ([CallGetUser, SetUser authUser, SetRoles None, SetPermissions None], None)))"

text \<open>The \<open>catch\<close> block, run when the \<open>try\<close> block threw.\<close>

definition catchBlock :: "err option \<Rightarrow> effect list" where
  "catchBlock thrown =
     (case thrown of
        None \<Rightarrow> []
      | Some e \<Rightarrow> [ConsoleError e, SetRoles None, SetPermissions None])"

text \<open>\<open>fetchUserAndRolesAndPermissions\<close>: \<open>setLoading(true)\<close>, try, catch, finally.\<close>

definition fetchUserAndRolesAndPermissions :: "backend \<Rightarrow> effect list" where
  "fetchUserAndRolesAndPermissions b =
     (case tryBlock b of
        (effs, thrown) \<Rightarrow> [SetLoading True] @ effs @ catchBlock thrown @ [SetLoading False])"

subsection \<open>The auth listener and the hook\<close>

text \<open>
  \<open>session?.user\<close>, and the callback given to \<open>onAuthStateChange\<close>; the event itself
  is not read.
\<close>

definition sessionUser :: "Session option \<Rightarrow> User option" where
  "sessionUser session = (case session of None \<Rightarrow> None | Some s \<Rightarrow> session_user s)"

definition onAuthStateChange :: "backend \<Rightarrow> 'event \<Rightarrow> Session option \<Rightarrow> effect list" where
  "onAuthStateChange b event session =
     (case sessionUser session of
        Some u \<Rightarrow> SetUser (Some u) # fetchUserAndRolesAndPermissions b
      | None \<Rightarrow> [SetUser None, SetRoles None, SetPermissions None, SetLoading False])"

text \<open>
  \<open>useUser\<close>: the argument is what \<open>useContext(UserContext)\<close> returns, the value of the
  nearest provider or the context's default \<open>undefined\<close>.
\<close>

definition useUser :: "UserContextType option \<Rightarrow> err + UserContextType" where
  "useUser context =
     (case context of
        None \<Rightarrow> Inl (Error ''useUser must be used within a UserProvider'')
      | Some c \<Rightarrow> Inr c)"

subsection \<open>The provider as a transition system\<close>

text \<open>
  What makes the provider act: the effect run on mount, which calls the fetch routine,
  and an auth state change delivered to the listener (the event is a string such as
  \<open>SIGNED_IN\<close>).
\<close>

datatype operation =
    Mount backend
  | AuthStateChange backend string "Session option"

fun operationEffects :: "operation \<Rightarrow> effect list" where
  "operationEffects (Mount b) = fetchUserAndRolesAndPermissions b"
| "operationEffects (AuthStateChange b event session) = onAuthStateChange b event session"

text \<open>
  The states of the provider: the initial one, and any state after one more effect of
  some operation. Effects of different operations may follow each other in any order,
  which covers a fetch that is still awaiting when the next one starts.
\<close>

inductive reachable :: "UserContextType \<Rightarrow> bool" where
  initial: "reachable initialState"
| step: "reachable s \<Longrightarrow> e \<in> set (operationEffects op) \<Longrightarrow> reachable (applyEffect s e)"

subsection \<open>Sample backends\<close>

definition alice :: User where
  "alice = \<lparr>id' = ''u-1''\<rparr>"

definition adminRole :: Row where
  "adminRole = \<lparr>role_id = Some 1, role_name = Some ''admin''\<rparr>"

definition blankRole :: Row where
  "blankRole = \<lparr>role_id = Some 2, role_name = Some []\<rparr>"

definition noRows :: "'row QueryResult awaited" where
  "noRows = Resolved \<lparr>data = Some [], error = None\<rparr>"

text \<open>Alice is signed in, has the admin role, and the admin role may open \<open>/users\<close>.\<close>

definition backendAdmin :: backend where
  "backendAdmin =
     \<lparr>getUser = Resolved (Some alice),
      select_user_roles = (\<lambda>uid.
        if uid = ''u-1'' then Resolved \<lparr>data = Some [\<lparr>roles' = [adminRole]\<rparr>], error = None\<rparr>
        else noRows),
      select_resource_permissions = (\<lambda>ids.
        if 1 \<in> set ids then Resolved \<lparr>data = Some [\<lparr>resource_path = ''/users''\<rparr>], error = None\<rparr>
        else noRows)\<rparr>"

text \<open>As before, with a second role whose name is the empty string.\<close>

definition backendBlankRole :: backend where
  "backendBlankRole =
     backendAdmin\<lparr>select_user_roles := (\<lambda>uid.
        Resolved \<lparr>data = Some [\<lparr>roles' = [adminRole, blankRole]\<rparr>], error = None\<rparr>)\<rparr>"

text \<open>Alice is signed in and has no role rows.\<close>

definition backendNoRoles :: backend where
  "backendNoRoles = backendAdmin\<lparr>select_user_roles := (\<lambda>uid. noRows)\<rparr>"

text \<open>Alice is signed in and the role query returns an error.\<close>

definition backendRolesFail :: backend where
  "backendRolesFail =
     backendAdmin\<lparr>select_user_roles := (\<lambda>uid.
        Resolved \<lparr>data = None, error = Some (Error ''permission denied'')\<rparr>)\<rparr>"

text \<open>Nobody is signed in.\<close>

definition backendSignedOut :: backend where
  "backendSignedOut = backendAdmin\<lparr>getUser := Resolved None\<rparr>"

text \<open>The current-user call throws.\<close>

definition backendGetUserThrows :: backend where
  "backendGetUserThrows = backendAdmin\<lparr>getUser := Rejected (Error ''network'')\<rparr>"

text \<open>As \<open>backendAdmin\<close> for Alice; the role query of any other user is rejected.\<close>

definition backendAliceOnly :: backend where
  "backendAliceOnly =
     backendAdmin\<lparr>select_user_roles := (\<lambda>uid.
        if uid = ''u-1'' then Resolved \<lparr>data = Some [\<lparr>roles' = [adminRole]\<rparr>], error = None\<rparr>
        else Rejected (Error ''unknown user''))\<rparr>"

text \<open>The state after the provider has mounted against \<open>backendAdmin\<close>.\<close>

definition adminState :: UserContextType where
  "adminState = runEffects initialState (fetchUserAndRolesAndPermissions backendAdmin)"

section \<open>Properties\<close>

subsection \<open>Auxiliary facts\<close>

lemmas sample_defs = alice_def adminRole_def blankRole_def noRows_def backendAdmin_def backendBlankRole_def
  backendNoRoles_def backendRolesFail_def backendSignedOut_def backendGetUserThrows_def

lemma fetchedPermissions_eq:
  "fetchedPermissions d =
     set (map resource_path (orEmpty d)) \<union> (if orEmpty d = [] then {} else {''/''})"
  by (simp add: fetchedPermissions_def Let_def card_gt_0_iff)

lemma fetchedPermissions_root: "fetchedPermissions d \<noteq> {} \<Longrightarrow> ''/'' \<in> fetchedPermissions d"
  by (simp add: fetchedPermissions_eq split: if_splits)

lemma fetch_getUser_rejected:
  "getUser b = Rejected e \<Longrightarrow>
   fetchUserAndRolesAndPermissions b =
     [SetLoading True, CallGetUser, ConsoleError e, SetRoles None, SetPermissions None,
      SetLoading False]"
  by (simp add: fetchUserAndRolesAndPermissions_def tryBlock_def catchBlock_def)

lemma fetch_signed_out:
  "getUser b = Resolved None \<Longrightarrow>
   fetchUserAndRolesAndPermissions b =
     [SetLoading True, CallGetUser, SetUser None, SetRoles None, SetPermissions None,
      SetLoading False]"
  by (simp add: fetchUserAndRolesAndPermissions_def tryBlock_def catchBlock_def)

lemma fetch_signed_in:
  "getUser b = Resolved (Some u) \<Longrightarrow>
   fetchUserAndRolesAndPermissions b =
     [SetLoading True, CallGetUser, SetUser (Some u)] @ fst (rolesAndPermissions b u)
       @ catchBlock (snd (rolesAndPermissions b u)) @ [SetLoading False]"
  by (simp add: fetchUserAndRolesAndPermissions_def tryBlock_def split: prod.splits)

lemma rolesAndPermissions_rejected:
  "select_user_roles b (id' u) = Rejected e \<Longrightarrow>
   rolesAndPermissions b u = ([QueryUserRoles (id' u)], Some e)"
  by (simp add: rolesAndPermissions_def)

lemma rolesAndPermissions_error:
  "select_user_roles b (id' u) = Resolved res \<Longrightarrow> error res = Some e \<Longrightarrow>
   rolesAndPermissions b u = ([QueryUserRoles (id' u)], Some e)"
  by (simp add: rolesAndPermissions_def)

lemma rolesAndPermissions_no_roles:
  "select_user_roles b (id' u) = Resolved res \<Longrightarrow> error res = None \<Longrightarrow>
   fetchedRoles (orEmpty (data res)) = [] \<Longrightarrow>
   rolesAndPermissions b u =
     ([QueryUserRoles (id' u), SetRoles (Some []), SetPermissions (Some {})], None)"
  by (simp add: rolesAndPermissions_def)

lemma rolesAndPermissions_perm_rejected:
  "select_user_roles b (id' u) = Resolved res \<Longrightarrow> error res = None \<Longrightarrow>
   fetchedRoles (orEmpty (data res)) \<noteq> [] \<Longrightarrow>
   select_resource_permissions b (roleIds (orEmpty (data res))) = Rejected e \<Longrightarrow>
   rolesAndPermissions b u =
     ([QueryUserRoles (id' u), SetRoles (Some (fetchedRoles (orEmpty (data res)))),
       QueryResourcePermissions (roleIds (orEmpty (data res)))], Some e)"
  by (simp add: rolesAndPermissions_def Let_def)

lemma rolesAndPermissions_perm_error:
  "select_user_roles b (id' u) = Resolved res \<Longrightarrow> error res = None \<Longrightarrow>
   fetchedRoles (orEmpty (data res)) \<noteq> [] \<Longrightarrow>
   select_resource_permissions b (roleIds (orEmpty (data res))) = Resolved pres \<Longrightarrow>
   error pres = Some e \<Longrightarrow>
   rolesAndPermissions b u =
     ([QueryUserRoles (id' u), SetRoles (Some (fetchedRoles (orEmpty (data res)))),
       QueryResourcePermissions (roleIds (orEmpty (data res)))], Some e)"
  by (simp add: rolesAndPermissions_def Let_def)

lemma rolesAndPermissions_ok:
  "select_user_roles b (id' u) = Resolved res \<Longrightarrow> error res = None \<Longrightarrow>
   fetchedRoles (orEmpty (data res)) \<noteq> [] \<Longrightarrow>
   select_resource_permissions b (roleIds (orEmpty (data res))) = Resolved pres \<Longrightarrow>
   error pres = None \<Longrightarrow>
   rolesAndPermissions b u =
     ([QueryUserRoles (id' u), SetRoles (Some (fetchedRoles (orEmpty (data res)))),
       QueryResourcePermissions (roleIds (orEmpty (data res))),
       SetPermissions (Some (fetchedPermissions (data pres)))], None)"
  by (simp add: rolesAndPermissions_def Let_def)


lemmas trace_defs = fetchUserAndRolesAndPermissions_def tryBlock_def catchBlock_def
  rolesAndPermissions_def

lemma SetPermissions_fetch:
  "SetPermissions (Some P) \<in> set (fetchUserAndRolesAndPermissions b) \<Longrightarrow> P \<noteq> {} \<Longrightarrow> ''/'' \<in> P"
  by (auto simp add: trace_defs Let_def fetchedPermissions_root
      split: awaited.splits option.splits if_splits)

lemma SetPermissions_listener:
  "SetPermissions (Some P) \<in> set (onAuthStateChange b ev session) \<Longrightarrow> P \<noteq> {} \<Longrightarrow> ''/'' \<in> P"
  by (auto simp add: onAuthStateChange_def dest: SetPermissions_fetch split: option.splits)

lemma no_SetLoading_tryBlock: "SetLoading l \<notin> set (fst (tryBlock b))"
  by (auto simp add: tryBlock_def rolesAndPermissions_def Let_def
      split: awaited.splits option.splits if_splits)

lemma no_SetLoading_catchBlock: "SetLoading l \<notin> set (catchBlock thrown)"
  by (auto simp add: catchBlock_def split: option.splits)

lemma fetch_final_independent:
  "roles (runEffects s (fetchUserAndRolesAndPermissions b)) =
     roles (runEffects s' (fetchUserAndRolesAndPermissions b)) \<and>
   permissions (runEffects s (fetchUserAndRolesAndPermissions b)) =
     permissions (runEffects s' (fetchUserAndRolesAndPermissions b)) \<and> 
   loading (runEffects s (fetchUserAndRolesAndPermissions b)) = False"
  by (auto simp add: trace_defs Let_def runEffects_def
      split: awaited.splits option.splits if_splits)

lemma fetch_final_user:
  "user (runEffects s (fetchUserAndRolesAndPermissions b)) =
     (case getUser b of Rejected e \<Rightarrow> user s | Resolved authUser \<Rightarrow> authUser)"
  by (auto simp add: trace_defs Let_def runEffects_def
      split: awaited.splits option.splits if_splits)


lemma fetchedRoles_flat:
  "fetchedRoles d = map the (filter BooleanString (map role_name (concat (map roles' d))))"
  by (simp add: fetchedRoles_def map_concat comp_def)

lemma Some_the_truthy: "map Some (map the (filter BooleanString xs)) = filter BooleanString xs"
proof (induction xs)
  case Nil
  then show ?case by simp
next
  case (Cons x xs)
  then show ?case by (cases x) simp_all
qed

lemma fetchedRoles_eq:
  "map Some (fetchedRoles d) = filter BooleanString (map role_name (concat (map roles' d)))"
  by (simp only: fetchedRoles_flat Some_the_truthy)

lemma fetchedRoles_no_rows: "concat (map roles' d) = [] \<Longrightarrow> fetchedRoles d = []"
  by (simp only: fetchedRoles_flat list.map filter.simps)

lemma reachable_runEffects:
  "reachable s \<Longrightarrow> set effs \<subseteq> set (operationEffects op) \<Longrightarrow> reachable (runEffects s effs)"
proof (induction effs arbitrary: s)
  case Nil
  then show ?case by (simp add: runEffects_def)
next
  case (Cons e effs)
  from Cons.prems have "reachable (applyEffect s e)"
    by (auto intro: reachable.step)
  with Cons show ?case
    by (simp add: runEffects_def)
qed

lemma reachable_after_mount: "reachable (runEffects initialState (fetchUserAndRolesAndPermissions b))"
  using reachable_runEffects [OF reachable.initial, of _ "Mount b"] by simp

lemma SetPermissions_operation:
  "SetPermissions (Some P) \<in> set (operationEffects op) \<Longrightarrow> P \<noteq> {} \<Longrightarrow> ''/'' \<in> P"
  by (cases op) (auto dest: SetPermissions_fetch SetPermissions_listener)

lemmas eval_defs = sample_defs trace_defs fetchedRoles_def roleIds_def fetchedPermissions_def
  orEmpty_def Let_def runEffects_def initialState_def

lemma adminState_eq:
  "adminState =
     \<lparr>user = Some alice, roles = Some [''admin''], permissions = Some {''/'', ''/users''},
      loading = False\<rparr>"
  by (simp add: adminState_def eval_defs)

subsection \<open>Reachable states\<close>

text \<open>
  C3. In every reachable state of the provider, a permission set that is not empty contains the
  root path \<open>/\<close>. Reachable states include those in the middle of an operation and
  those where the effects of several operations interleave; a null permission set is not a
  non-empty set.
\<close>

theorem C3_nonempty_permissions_contain_root:
  "reachable s \<Longrightarrow> permissions s = Some P \<Longrightarrow> P \<noteq> {} \<Longrightarrow> ''/'' \<in> P"
proof (induction s arbitrary: P rule: reachable.induct)
  case initial
  then show ?case by (simp add: initialState_def)
next
  case (step s e op)
  show ?case
  proof (cases e)
    case (SetPermissions p)
    with step.prems have "p = Some P" by simp
    with step.hyps(2) SetPermissions step.prems(2) show ?thesis
      by (auto dest: SetPermissions_operation)
  qed (use step in auto)
qed

theorem C3_nonempty_permissions_contain_root_witness:
  "reachable (runEffects initialState (fetchUserAndRolesAndPermissions backendAdmin)) \<and>
   permissions (runEffects initialState (fetchUserAndRolesAndPermissions backendAdmin)) =
     Some {''/'', ''/users''} \<and>
   {''/'', ''/users''} \<noteq> ({} :: string set) \<and> ''/'' \<in> {''/'', ''/users''}"
proof -
  have r: "reachable (runEffects initialState (fetchUserAndRolesAndPermissions backendAdmin))"
    by (rule reachable_after_mount)
  have p: "permissions (runEffects initialState (fetchUserAndRolesAndPermissions backendAdmin)) =
      Some {''/'', ''/users''}"
    by (simp add: sample_defs trace_defs fetchedRoles_def roleIds_def fetchedPermissions_def
        orEmpty_def Let_def runEffects_def initialState_def)
  have n: "{''/'', ''/users''} \<noteq> ({} :: string set)" by simp
  from C3_nonempty_permissions_contain_root [OF r p n] r p n show ?thesis by simp
qed

subsection \<open>The fetch routine, step by step\<close>

text \<open>
  C1 as stated fails. For Alice with the admin role, the permission query for role 1 returns
  the single path \<open>/users\<close>, and the permission set after the run is not the set of the
  returned paths: it holds \<open>/\<close> as well.
\<close>

theorem C1_permissions_exactly_query_paths_counterexample:
  "select_resource_permissions backendAdmin [1] =
     Resolved \<lparr>data = Some [\<lparr>resource_path = ''/users''\<rparr>], error = None\<rparr> \<and>
   QueryResourcePermissions [1] \<in> set (fetchUserAndRolesAndPermissions backendAdmin) \<and>
   permissions (runEffects initialState (fetchUserAndRolesAndPermissions backendAdmin)) \<noteq>
     Some (set (map resource_path [\<lparr>resource_path = ''/users''\<rparr>]))"
  by (simp add: eval_defs)

text \<open>
  C1, amended. For a signed-in user with at least one role name, when neither query fails, the
  routine does exactly these steps: loading on, the current-user call, the user set, the role
  query for the user's id, the roles set, the permission query for the user's role ids, the
  permissions set, loading off. The permission set is the set of the resource paths the
  permission query returned, together with the root path \<open>/\<close> when at least one path was
  returned.
\<close>

theorem C1_fetch_steps_and_permissions:
  assumes "getUser b = Resolved (Some u)"
    and "select_user_roles b (id' u) = Resolved res"
    and "error res = None"
    and "fetchedRoles (orEmpty (data res)) \<noteq> []"
    and "select_resource_permissions b (roleIds (orEmpty (data res))) = Resolved pres"
    and "error pres = None"
  shows "fetchUserAndRolesAndPermissions b =
      [SetLoading True, CallGetUser, SetUser (Some u), QueryUserRoles (id' u),
       SetRoles (Some (fetchedRoles (orEmpty (data res)))),
       QueryResourcePermissions (roleIds (orEmpty (data res))),
       SetPermissions (Some (set (map resource_path (orEmpty (data pres))) \<union>
         (if orEmpty (data pres) = [] then {} else {''/''}))),
       SetLoading False] \<and>
    permissions (runEffects s (fetchUserAndRolesAndPermissions b)) =
      Some (set (map resource_path (orEmpty (data pres))) \<union>
        (if orEmpty (data pres) = [] then {} else {''/''}))"
proof -
  have "fetchUserAndRolesAndPermissions b =
      [SetLoading True, CallGetUser, SetUser (Some u), QueryUserRoles (id' u),
       SetRoles (Some (fetchedRoles (orEmpty (data res)))),
       QueryResourcePermissions (roleIds (orEmpty (data res))),
       SetPermissions (Some (fetchedPermissions (data pres))), SetLoading False]"
    using assms
    by (simp add: fetch_signed_in rolesAndPermissions_ok catchBlock_def)
  then show ?thesis
    by (simp add: fetchedPermissions_eq runEffects_def)
qed

text \<open>C1, amended, at the backend where Alice has the admin role.\<close>

theorem C1_fetch_steps_and_permissions_witness:
  "getUser backendAdmin = Resolved (Some alice) \<and>
   select_user_roles backendAdmin (id' alice) =
     Resolved \<lparr>data = Some [\<lparr>roles' = [adminRole]\<rparr>], error = None\<rparr> \<and>
   fetchedRoles [\<lparr>roles' = [adminRole]\<rparr>] = [''admin''] \<and>
   roleIds [\<lparr>roles' = [adminRole]\<rparr>] = [1] \<and>
   select_resource_permissions backendAdmin [1] =
     Resolved \<lparr>data = Some [\<lparr>resource_path = ''/users''\<rparr>], error = None\<rparr> \<and>
   fetchUserAndRolesAndPermissions backendAdmin =
     [SetLoading True, CallGetUser, SetUser (Some alice), QueryUserRoles ''u-1'',
      SetRoles (Some [''admin'']), QueryResourcePermissions [1],
      SetPermissions (Some {''/'', ''/users''}), SetLoading False] \<and>
   permissions (runEffects initialState (fetchUserAndRolesAndPermissions backendAdmin)) =
     Some {''/'', ''/users''}"
  using C1_fetch_steps_and_permissions [of backendAdmin alice
      "\<lparr>data = Some [\<lparr>roles' = [adminRole]\<rparr>], error = None\<rparr>"
      "\<lparr>data = Some [\<lparr>resource_path = ''/users''\<rparr>], error = None\<rparr>" initialState]
  by (simp add: sample_defs fetchedRoles_def roleIds_def orEmpty_def runEffects_def)

subsection \<open>Failures\<close>

lemma tryBlock_thrown_effects:
  "snd (tryBlock b) = Some e \<Longrightarrow>
   fetchUserAndRolesAndPermissions b =
     SetLoading True # fst (tryBlock b) @
       [ConsoleError e, SetRoles None, SetPermissions None, SetLoading False]"
  by (cases "tryBlock b") (simp add: fetchUserAndRolesAndPermissions_def catchBlock_def)

text \<open>
  C2 as stated fails. When the role query returns an error, the \<open>try\<close> block throws after
  the user has been set, and the \<open>catch\<close> block does not clear the user: the user is still
  Alice after the run.
\<close>

theorem C2_failure_keeps_user_counterexample:
  "snd (tryBlock backendRolesFail) = Some (Error ''permission denied'') \<and>
   user (runEffects initialState (fetchUserAndRolesAndPermissions backendRolesFail)) =
     Some alice \<and>
   user (runEffects initialState (fetchUserAndRolesAndPermissions backendRolesFail)) \<noteq> None"
  by (simp add: eval_defs)

text \<open>
  C2, amended. When the \<open>try\<close> block throws (the current-user call rejects, or the role or
  permission query rejects or returns an error), the routine logs the error, sets roles and
  permissions to null, and loading ends false. The user is not cleared: it is the fetched
  user when the current-user call returned, and is left as it was when that call threw.
\<close>

theorem C2_failure_logs_and_clears_roles_permissions:
  assumes "snd (tryBlock b) = Some e"
  shows "ConsoleError e \<in> set (fetchUserAndRolesAndPermissions b) \<and>
    roles (runEffects s (fetchUserAndRolesAndPermissions b)) = None \<and>
    permissions (runEffects s (fetchUserAndRolesAndPermissions b)) = None \<and>
    loading (runEffects s (fetchUserAndRolesAndPermissions b)) = False \<and>
    user (runEffects s (fetchUserAndRolesAndPermissions b)) =
      (case getUser b of Rejected x \<Rightarrow> user s | Resolved authUser \<Rightarrow> authUser)"
proof -
  have "user (runEffects s (fetchUserAndRolesAndPermissions b)) =
      (case getUser b of Rejected x \<Rightarrow> user s | Resolved authUser \<Rightarrow> authUser)"
    by (rule fetch_final_user)
  moreover have "ConsoleError e \<in> set (fetchUserAndRolesAndPermissions b)"
    by (simp add: tryBlock_thrown_effects [OF assms])
  moreover have "roles (runEffects s (fetchUserAndRolesAndPermissions b)) = None"
    and "permissions (runEffects s (fetchUserAndRolesAndPermissions b)) = None"
    and "loading (runEffects s (fetchUserAndRolesAndPermissions b)) = False"
    by (simp_all add: tryBlock_thrown_effects [OF assms] runEffects_def)
  ultimately show ?thesis by simp
qed

text \<open>C2, amended, at the backend whose role query returns an error.\<close>

theorem C2_failure_logs_and_clears_roles_permissions_witness:
  "snd (tryBlock backendRolesFail) = Some (Error ''permission denied'') \<and>
   ConsoleError (Error ''permission denied'') \<in>
     set (fetchUserAndRolesAndPermissions backendRolesFail) \<and>
   roles (runEffects initialState (fetchUserAndRolesAndPermissions backendRolesFail)) = None \<and>
   permissions (runEffects initialState (fetchUserAndRolesAndPermissions backendRolesFail)) =
     None \<and>
   loading (runEffects initialState (fetchUserAndRolesAndPermissions backendRolesFail)) =
     False \<and>
   user (runEffects initialState (fetchUserAndRolesAndPermissions backendRolesFail)) =
     Some alice"
proof -
  have t: "snd (tryBlock backendRolesFail) = Some (Error ''permission denied'')"
    by (simp add: sample_defs tryBlock_def rolesAndPermissions_def)
  have g: "getUser backendRolesFail = Resolved (Some alice)"
    by (simp add: sample_defs)
  from C2_failure_logs_and_clears_roles_permissions [OF t, of initialState] t g
  show ?thesis by simp
qed

subsection \<open>The auth listener\<close>

lemma CallGetUser_fetch: "CallGetUser \<in> set (fetchUserAndRolesAndPermissions b)"
  by (auto simp add: fetchUserAndRolesAndPermissions_def tryBlock_def
      split: prod.splits awaited.splits option.splits)

text \<open>
  C4 as stated fails. An auth event without a session makes no call to the backend: the
  listener only clears the state.
\<close>

theorem C4_sign_out_event_does_not_refetch_counterexample:
  "CallGetUser \<notin> set (onAuthStateChange backendAdmin ''SIGNED_OUT'' None) \<and>
   onAuthStateChange backendAdmin ''SIGNED_OUT'' None =
     [SetUser None, SetRoles None, SetPermissions None, SetLoading False]"
  by (simp add: onAuthStateChange_def sessionUser_def)

text \<open>
  C4, amended. For every auth state change event whose session carries a user, the listener
  sets that user and runs the whole fetch routine again, which calls the backend for the
  current user; nothing is kept from earlier runs. For an event without a session user, the
  listener clears user, roles and permissions, ends loading, and fetches nothing.
\<close>

theorem C4_listener_refetches_when_session_has_user:
  "(sessionUser session = Some u \<longrightarrow>
      onAuthStateChange b event session = SetUser (Some u) # fetchUserAndRolesAndPermissions b \<and>
      CallGetUser \<in> set (onAuthStateChange b event session)) \<and>
   (sessionUser session = None \<longrightarrow>
      onAuthStateChange b event session =
        [SetUser None, SetRoles None, SetPermissions None, SetLoading False])"
  by (simp add: onAuthStateChange_def CallGetUser_fetch)

text \<open>C4, amended, at a sign-in event for Alice and at a sign-out event.\<close>

theorem C4_listener_refetches_when_session_has_user_witness:
  "sessionUser (Some \<lparr>session_user = Some alice\<rparr>) = Some alice \<and>
   onAuthStateChange backendAdmin ''SIGNED_IN'' (Some \<lparr>session_user = Some alice\<rparr>) =
     SetUser (Some alice) # fetchUserAndRolesAndPermissions backendAdmin \<and>
   CallGetUser \<in>
     set (onAuthStateChange backendAdmin ''SIGNED_IN'' (Some \<lparr>session_user = Some alice\<rparr>)) \<and>
   sessionUser None = None \<and>
   onAuthStateChange backendAdmin ''SIGNED_OUT'' None =
     [SetUser None, SetRoles None, SetPermissions None, SetLoading False]"
proof -
  have a: "sessionUser (Some \<lparr>session_user = Some alice\<rparr>) = Some alice"
    and n: "sessionUser None = None"
    by (simp_all add: sessionUser_def)
  from C4_listener_refetches_when_session_has_user
      [of "Some \<lparr>session_user = Some alice\<rparr>" alice backendAdmin "''SIGNED_IN''"]
    C4_listener_refetches_when_session_has_user [of None alice backendAdmin "''SIGNED_OUT''"]
    a n
  show ?thesis by blast
qed

subsection \<open>Null and empty\<close>

text \<open>
  C5. For a signed-in user whose role query returns no role rows (and no error), roles is the
  empty list and permissions the empty set, both non-null, and no permission query is issued;
  when no user is signed in, both are null.
\<close>

theorem C5_no_roles_gives_empty_not_null:
  "(getUser b = Resolved (Some u) \<and> select_user_roles b (id' u) = Resolved res \<and>
    error res = None \<and> concat (map roles' (orEmpty (data res))) = [] \<longrightarrow>
      roles (runEffects s (fetchUserAndRolesAndPermissions b)) = Some [] \<and>
      permissions (runEffects s (fetchUserAndRolesAndPermissions b)) = Some {} \<and>
      (\<forall>ids. QueryResourcePermissions ids \<notin> set (fetchUserAndRolesAndPermissions b))) \<and>
   (getUser b = Resolved None \<longrightarrow>
      roles (runEffects s (fetchUserAndRolesAndPermissions b)) = None \<and>
      permissions (runEffects s (fetchUserAndRolesAndPermissions b)) = None)"
proof (intro conjI impI)
  assume "getUser b = Resolved (Some u) \<and> select_user_roles b (id' u) = Resolved res \<and>
    error res = None \<and> concat (map roles' (orEmpty (data res))) = []"
  then have "fetchUserAndRolesAndPermissions b =
      [SetLoading True, CallGetUser, SetUser (Some u), QueryUserRoles (id' u),
       SetRoles (Some []), SetPermissions (Some {}), SetLoading False]"
    by (simp add: fetch_signed_in rolesAndPermissions_no_roles fetchedRoles_no_rows
        catchBlock_def)
  then show "roles (runEffects s (fetchUserAndRolesAndPermissions b)) = Some []"
    and "permissions (runEffects s (fetchUserAndRolesAndPermissions b)) = Some {}"
    and "\<forall>ids. QueryResourcePermissions ids \<notin> set (fetchUserAndRolesAndPermissions b)"
    by (simp_all add: runEffects_def)
next
  assume "getUser b = Resolved None"
  then show "roles (runEffects s (fetchUserAndRolesAndPermissions b)) = None"
    and "permissions (runEffects s (fetchUserAndRolesAndPermissions b)) = None"
    by (simp_all add: fetch_signed_out runEffects_def)
qed

text \<open>
  C5 at the backend where Alice has no role rows, and at the signed-out backend, each after a
  mount against \<open>backendAdmin\<close>.
\<close>

theorem C5_no_roles_gives_empty_not_null_witness:
  "getUser backendNoRoles = Resolved (Some alice) \<and>
   select_user_roles backendNoRoles (id' alice) = Resolved \<lparr>data = Some [], error = None\<rparr> \<and>
   roles (runEffects adminState (fetchUserAndRolesAndPermissions backendNoRoles)) = Some [] \<and>
   permissions (runEffects adminState (fetchUserAndRolesAndPermissions backendNoRoles)) =
     Some {} \<and>
   (\<forall>ids. QueryResourcePermissions ids \<notin> set (fetchUserAndRolesAndPermissions backendNoRoles)) \<and>
   getUser backendSignedOut = Resolved None \<and>
   roles (runEffects adminState (fetchUserAndRolesAndPermissions backendSignedOut)) = None \<and>
   permissions (runEffects adminState (fetchUserAndRolesAndPermissions backendSignedOut)) =
     None"
proof -
  have a: "getUser backendNoRoles = Resolved (Some alice)"
    and b: "select_user_roles backendNoRoles (id' alice) = Resolved \<lparr>data = Some [], error = None\<rparr>"
    and c: "getUser backendSignedOut = Resolved None"
    by (simp_all add: sample_defs)
  from C5_no_roles_gives_empty_not_null
      [of backendNoRoles alice "\<lparr>data = Some [], error = None\<rparr>" adminState]
    C5_no_roles_gives_empty_not_null
      [of backendSignedOut alice "\<lparr>data = Some [], error = None\<rparr>" adminState]
    a b c
  show ?thesis by (simp add: orEmpty_def)
qed

text \<open>
  C6. When the current-user call returns no user, roles and permissions are set to null and
  neither the role query nor the permission query is issued.
\<close>

theorem C6_signed_out_no_queries:
  assumes "getUser b = Resolved None"
  shows "user (runEffects s (fetchUserAndRolesAndPermissions b)) = None \<and>
    roles (runEffects s (fetchUserAndRolesAndPermissions b)) = None \<and>
    permissions (runEffects s (fetchUserAndRolesAndPermissions b)) = None \<and>
    (\<forall>uid. QueryUserRoles uid \<notin> set (fetchUserAndRolesAndPermissions b)) \<and>
    (\<forall>ids. QueryResourcePermissions ids \<notin> set (fetchUserAndRolesAndPermissions b))"
  by (simp add: fetch_signed_out [OF assms] runEffects_def)

text \<open>C6 at the signed-out backend, after a mount against \<open>backendAdmin\<close>.\<close>

theorem C6_signed_out_no_queries_witness:
  "getUser backendSignedOut = Resolved None \<and>
   user (runEffects adminState (fetchUserAndRolesAndPermissions backendSignedOut)) = None \<and>
   roles (runEffects adminState (fetchUserAndRolesAndPermissions backendSignedOut)) = None \<and>
   permissions (runEffects adminState (fetchUserAndRolesAndPermissions backendSignedOut)) =
     None \<and>
   (\<forall>uid. QueryUserRoles uid \<notin> set (fetchUserAndRolesAndPermissions backendSignedOut)) \<and>
   (\<forall>ids. QueryResourcePermissions ids \<notin>
      set (fetchUserAndRolesAndPermissions backendSignedOut))"
proof -
  have g: "getUser backendSignedOut = Resolved None"
    by (simp add: sample_defs)
  from C6_signed_out_no_queries [OF g, of adminState] g show ?thesis by simp
qed

subsection \<open>Role names\<close>

text \<open>
  C7 as stated fails. Alice has two joined role rows, one of them with the empty string as
  its name; no call fails, and the roles value has one entry, not one per role row.
\<close>

theorem C7_blank_role_name_dropped_counterexample:
  "select_user_roles backendBlankRole (id' alice) =
     Resolved \<lparr>data = Some [\<lparr>roles' = [adminRole, blankRole]\<rparr>], error = None\<rparr> \<and>
   snd (tryBlock backendBlankRole) = None \<and>
   roles (runEffects initialState (fetchUserAndRolesAndPermissions backendBlankRole)) =
     Some [''admin''] \<and>
   map Some [''admin''] \<noteq> map role_name [adminRole, blankRole]"
  by (simp add: eval_defs)

text \<open>
  C7, amended. For every signed-in user, when no call of the run fails, the roles value is
  the list of the role names of the role rows joined through \<open>user_roles\<close> for that user,
  in order, without the names that are null or the empty string.
\<close>

theorem C7_roles_are_truthy_role_names:
  assumes "getUser b = Resolved (Some u)"
    and "select_user_roles b (id' u) = Resolved res"
    and "snd (tryBlock b) = None"
  shows "roles (runEffects s (fetchUserAndRolesAndPermissions b)) =
      Some (fetchedRoles (orEmpty (data res))) \<and>
    map Some (fetchedRoles (orEmpty (data res))) =
      filter (\<lambda>name. name \<noteq> None \<and> name \<noteq> Some [])
        (map role_name (concat (map roles' (orEmpty (data res)))))"
proof -
  have "BooleanString = (\<lambda>name. name \<noteq> None \<and> name \<noteq> Some [])"
  proof
    fix name show "BooleanString name = (name \<noteq> None \<and> name \<noteq> Some [])"
      by (cases name) simp_all
  qed
  then have "map Some (fetchedRoles (orEmpty (data res))) =
      filter (\<lambda>name. name \<noteq> None \<and> name \<noteq> Some [])
        (map role_name (concat (map roles' (orEmpty (data res)))))"
    using fetchedRoles_eq [of "orEmpty (data res)"] by simp
  moreover have "roles (runEffects s (fetchUserAndRolesAndPermissions b)) =
      Some (fetchedRoles (orEmpty (data res)))"
    using assms
    by (auto simp add: trace_defs Let_def runEffects_def
        split: awaited.splits option.splits if_splits)
  ultimately show ?thesis by simp
qed

text \<open>C7, amended, at the backend with the blank role name.\<close>

theorem C7_roles_are_truthy_role_names_witness:
  "getUser backendBlankRole = Resolved (Some alice) \<and>
   select_user_roles backendBlankRole (id' alice) =
     Resolved \<lparr>data = Some [\<lparr>roles' = [adminRole, blankRole]\<rparr>], error = None\<rparr> \<and>
   snd (tryBlock backendBlankRole) = None \<and>
   roles (runEffects initialState (fetchUserAndRolesAndPermissions backendBlankRole)) =
     Some [''admin'']"
proof -
  have a: "getUser backendBlankRole = Resolved (Some alice)"
    and b: "select_user_roles backendBlankRole (id' alice) =
      Resolved \<lparr>data = Some [\<lparr>roles' = [adminRole, blankRole]\<rparr>], error = None\<rparr>"
    and c: "snd (tryBlock backendBlankRole) = None"
    by (simp_all add: eval_defs)
  from C7_roles_are_truthy_role_names [OF a b c, of initialState] a b c
  show ?thesis by (simp add: fetchedRoles_def orEmpty_def adminRole_def blankRole_def)
qed

subsection \<open>The loading flag and the state after an operation\<close>

text \<open>
  C8 as stated fails in its conclusion. A run whose current-user call throws completes with
  loading false, and the user it exposes is not one the run fetched: after a mount against
  \<open>backendAdmin\<close> the user is still Alice, while the same run from the initial state
  exposes no user.
\<close>

theorem C8_throwing_fetch_keeps_earlier_user_counterexample:
  "getUser backendGetUserThrows = Rejected (Error ''network'') \<and>
   loading (runEffects adminState (fetchUserAndRolesAndPermissions backendGetUserThrows)) =
     False \<and>
   user (runEffects adminState (fetchUserAndRolesAndPermissions backendGetUserThrows)) =
     Some alice \<and>
   user (runEffects adminState (fetchUserAndRolesAndPermissions backendGetUserThrows)) \<noteq>
     user (runEffects initialState (fetchUserAndRolesAndPermissions backendGetUserThrows))"
  by (simp add: adminState_eq backendGetUserThrows_def fetch_getUser_rejected runEffects_def
      initialState_def)

text \<open>
  C8, amended. Every run of the fetch routine sets loading to true as its first step and to
  false as its last, whether the \<open>try\<close> block throws or not, and does not touch the flag in
  between; every auth event ends by setting loading to false, and a sign-out event leaves
  user, roles and permissions null. So after a completed operation (its effects applied in
  order to any earlier state) loading is false, and roles and permissions are those of the
  latest fetch, whatever they were before: null when the current-user call threw. The user
  is the one the latest fetch received when its current-user call returned, and is left as
  it was before the run when that call threw. A sign-in event is the fetch routine run after
  the session's user has been set.
\<close>

theorem C8_loading_and_state_after_run:
  "fetchUserAndRolesAndPermissions b =
     SetLoading True # (fst (tryBlock b) @ catchBlock (snd (tryBlock b))) @ [SetLoading False] \<and>
   (\<forall>l. SetLoading l \<notin> set (fst (tryBlock b) @ catchBlock (snd (tryBlock b)))) \<and>
   loading (runEffects s (fetchUserAndRolesAndPermissions b)) = False \<and>
   loading (runEffects s (onAuthStateChange b event session)) = False \<and>
   last (onAuthStateChange b event session) = SetLoading False \<and>
   roles (runEffects s (fetchUserAndRolesAndPermissions b)) =
     roles (runEffects s' (fetchUserAndRolesAndPermissions b)) \<and>
   permissions (runEffects s (fetchUserAndRolesAndPermissions b)) =
     permissions (runEffects s' (fetchUserAndRolesAndPermissions b)) \<and>
   (\<forall>authUser. getUser b = Resolved authUser \<longrightarrow>
      user (runEffects s (fetchUserAndRolesAndPermissions b)) = authUser) \<and>
   (\<forall>e. getUser b = Rejected e \<longrightarrow>
      user (runEffects s (fetchUserAndRolesAndPermissions b)) = user s \<and>
      roles (runEffects s (fetchUserAndRolesAndPermissions b)) = None \<and>
      permissions (runEffects s (fetchUserAndRolesAndPermissions b)) = None) \<and>
   (sessionUser session = None \<longrightarrow>
      runEffects s (onAuthStateChange b event session) =
        \<lparr>user = None, roles = None, permissions = None, loading = False\<rparr>) \<and>
   (\<forall>u. sessionUser session = Some u \<longrightarrow>
      runEffects s (onAuthStateChange b event session) =
        runEffects (s\<lparr>user := Some u\<rparr>) (fetchUserAndRolesAndPermissions b))"
proof -
  have "fetchUserAndRolesAndPermissions b =
      SetLoading True # (fst (tryBlock b) @ catchBlock (snd (tryBlock b))) @ [SetLoading False]"
    by (cases "tryBlock b") (simp add: fetchUserAndRolesAndPermissions_def)
  moreover have "\<forall>l. SetLoading l \<notin> set (fst (tryBlock b) @ catchBlock (snd (tryBlock b)))"
    by (simp add: no_SetLoading_tryBlock no_SetLoading_catchBlock)
  moreover have f: "loading (runEffects t (fetchUserAndRolesAndPermissions b)) = False" for t
    using fetch_final_independent [of t b t] by simp
  moreover have "loading (runEffects s (onAuthStateChange b event session)) = False"
  proof (cases "sessionUser session")
    case None
    then show ?thesis by (simp add: onAuthStateChange_def runEffects_def)
  next
    case (Some u)
    then have "runEffects s (onAuthStateChange b event session) =
        runEffects (applyEffect s (SetUser (Some u))) (fetchUserAndRolesAndPermissions b)"
      by (simp add: onAuthStateChange_def runEffects_def)
    then show ?thesis by (simp only: f)
  qed
  moreover have "last (onAuthStateChange b event session) = SetLoading False"
    by (cases "tryBlock b")
      (simp add: onAuthStateChange_def fetchUserAndRolesAndPermissions_def split: option.splits)
  moreover have "roles (runEffects s (fetchUserAndRolesAndPermissions b)) =
      roles (runEffects s' (fetchUserAndRolesAndPermissions b))"
    and "permissions (runEffects s (fetchUserAndRolesAndPermissions b)) =
      permissions (runEffects s' (fetchUserAndRolesAndPermissions b))"
    using fetch_final_independent [of s b s'] by simp_all
  moreover have "\<forall>authUser. getUser b = Resolved authUser \<longrightarrow>
      user (runEffects s (fetchUserAndRolesAndPermissions b)) = authUser"
    by (simp add: fetch_final_user)
  moreover have "\<forall>e. getUser b = Rejected e \<longrightarrow>
      user (runEffects s (fetchUserAndRolesAndPermissions b)) = user s \<and>
      roles (runEffects s (fetchUserAndRolesAndPermissions b)) = None \<and>
      permissions (runEffects s (fetchUserAndRolesAndPermissions b)) = None"
    by (simp add: fetch_getUser_rejected runEffects_def)
  moreover have "sessionUser session = None \<longrightarrow>
      runEffects s (onAuthStateChange b event session) =
        \<lparr>user = None, roles = None, permissions = None, loading = False\<rparr>"
    by (simp add: onAuthStateChange_def runEffects_def)
  moreover have "\<forall>u. sessionUser session = Some u \<longrightarrow>
      runEffects s (onAuthStateChange b event session) =
        runEffects (s\<lparr>user := Some u\<rparr>) (fetchUserAndRolesAndPermissions b)"
    by (simp add: onAuthStateChange_def runEffects_def)
  ultimately show ?thesis by blast
qed

text \<open>
  C8, amended: a fetch that succeeds and one whose current-user call throws, both after a
  mount against \<open>backendAdmin\<close>; a sign-out event and a sign-in event.
\<close>

theorem C8_loading_and_state_after_run_witness:
  "getUser backendNoRoles = Resolved (Some alice) \<and>
   user (runEffects adminState (fetchUserAndRolesAndPermissions backendNoRoles)) = Some alice \<and>
   roles (runEffects adminState (fetchUserAndRolesAndPermissions backendNoRoles)) =
     roles (runEffects initialState (fetchUserAndRolesAndPermissions backendNoRoles)) \<and>
   permissions (runEffects adminState (fetchUserAndRolesAndPermissions backendNoRoles)) =
     permissions (runEffects initialState (fetchUserAndRolesAndPermissions backendNoRoles)) \<and>
   loading (runEffects adminState (fetchUserAndRolesAndPermissions backendNoRoles)) = False \<and>
   getUser backendGetUserThrows = Rejected (Error ''network'') \<and>
   user (runEffects adminState (fetchUserAndRolesAndPermissions backendGetUserThrows)) =
     user adminState \<and>
   roles (runEffects adminState (fetchUserAndRolesAndPermissions backendGetUserThrows)) = None \<and>
   permissions (runEffects adminState (fetchUserAndRolesAndPermissions backendGetUserThrows)) =
     None \<and>
   sessionUser None = None \<and>
   runEffects adminState (onAuthStateChange backendAdmin ''SIGNED_OUT'' None) =
     \<lparr>user = None, roles = None, permissions = None, loading = False\<rparr> \<and>
   sessionUser (Some \<lparr>session_user = Some alice\<rparr>) = Some alice \<and>
   runEffects initialState
       (onAuthStateChange backendAdmin ''SIGNED_IN'' (Some \<lparr>session_user = Some alice\<rparr>)) =
     runEffects (initialState\<lparr>user := Some alice\<rparr>)
       (fetchUserAndRolesAndPermissions backendAdmin)"
proof -
  have g: "getUser backendNoRoles = Resolved (Some alice)"
    and t: "getUser backendGetUserThrows = Rejected (Error ''network'')"
    by (simp_all add: sample_defs)
  have n: "sessionUser None = None"
    and a: "sessionUser (Some \<lparr>session_user = Some alice\<rparr>) = Some alice"
    by (simp_all add: sessionUser_def)
  note ok = C8_loading_and_state_after_run
    [of backendNoRoles adminState "''SIGNED_OUT''" None initialState]
  note thrown = C8_loading_and_state_after_run
    [of backendGetUserThrows adminState "''SIGNED_OUT''" None initialState]
  note out = C8_loading_and_state_after_run
    [of backendAdmin adminState "''SIGNED_OUT''" None initialState]
  note sign_in = C8_loading_and_state_after_run
    [of backendAdmin initialState "''SIGNED_IN''" "Some \<lparr>session_user = Some alice\<rparr>"
      initialState]
  from ok g have "user (runEffects adminState (fetchUserAndRolesAndPermissions backendNoRoles)) =
      Some alice"
    by blast
  moreover from thrown t
  have "user (runEffects adminState (fetchUserAndRolesAndPermissions backendGetUserThrows)) =
      user adminState \<and>
    roles (runEffects adminState (fetchUserAndRolesAndPermissions backendGetUserThrows)) = None \<and>
    permissions (runEffects adminState (fetchUserAndRolesAndPermissions backendGetUserThrows)) =
      None"
    by blast
  moreover from out n
  have "runEffects adminState (onAuthStateChange backendAdmin ''SIGNED_OUT'' None) =
      \<lparr>user = None, roles = None, permissions = None, loading = False\<rparr>"
    by blast
  moreover from sign_in a
  have "runEffects initialState
        (onAuthStateChange backendAdmin ''SIGNED_IN'' (Some \<lparr>session_user = Some alice\<rparr>)) =
      runEffects (initialState\<lparr>user := Some alice\<rparr>)
        (fetchUserAndRolesAndPermissions backendAdmin)"
    by blast
  ultimately show ?thesis using ok g t n a by blast
qed

subsection \<open>Determinism\<close>

text \<open>The trace of a run depends on the responses the run receives, and on nothing else.\<close>

lemma fetch_same_responses:
  assumes "getUser b = getUser b'"
    and "\<forall>u. getUser b = Resolved (Some u) \<longrightarrow>
      select_user_roles b (id' u) = select_user_roles b' (id' u)"
    and "\<forall>ids. QueryResourcePermissions ids \<in> set (fetchUserAndRolesAndPermissions b) \<longrightarrow>
      select_resource_permissions b ids = select_resource_permissions b' ids"
  shows "fetchUserAndRolesAndPermissions b = fetchUserAndRolesAndPermissions b'"
proof (cases "getUser b")
  case (Rejected e)
  moreover from Rejected assms(1) have "getUser b' = Rejected e" by simp
  ultimately show ?thesis by (simp only: fetch_getUser_rejected)
next
  case (Resolved authUser)
  show ?thesis
  proof (cases authUser)
    case None
    with Resolved have "getUser b = Resolved None" by simp
    moreover from this assms(1) have "getUser b' = Resolved None" by simp
    ultimately show ?thesis by (simp only: fetch_signed_out)
  next
    case (Some u)
    with Resolved assms have g: "getUser b = Resolved (Some u)" "getUser b' = Resolved (Some u)"
      and r: "select_user_roles b (id' u) = select_user_roles b' (id' u)"
      by simp_all
    have "rolesAndPermissions b u = rolesAndPermissions b' u"
    proof (cases "select_user_roles b (id' u)")
      case (Rejected e)
      moreover from Rejected r have "select_user_roles b' (id' u) = Rejected e" by simp
      ultimately show ?thesis by (simp only: rolesAndPermissions_rejected)
    next
      case res: (Resolved res)
      with r have res': "select_user_roles b' (id' u) = Resolved res" by simp
      show ?thesis
      proof (cases "error res")
        case (Some e)
        from res Some have "rolesAndPermissions b u = ([QueryUserRoles (id' u)], Some e)"
          by (rule rolesAndPermissions_error)
        moreover from res' Some have "rolesAndPermissions b' u = ([QueryUserRoles (id' u)], Some e)"
          by (rule rolesAndPermissions_error)
        ultimately show ?thesis by simp
      next
        case None
        show ?thesis
        proof (cases "fetchedRoles (orEmpty (data res)) = []")
          case True
          from res None True res' show ?thesis
            by (simp add: rolesAndPermissions_no_roles)
        next
          case False
          let ?ids = "roleIds (orEmpty (data res))"
          from res None False g(1)
          have "QueryResourcePermissions ?ids \<in> set (fetchUserAndRolesAndPermissions b)"
            by (auto simp add: fetch_signed_in rolesAndPermissions_def Let_def
                split: awaited.splits option.splits)
          with assms(3)
          have p: "select_resource_permissions b' ?ids = select_resource_permissions b ?ids"
            by simp
          show ?thesis
          proof (cases "select_resource_permissions b ?ids")
            case (Rejected e)
            moreover from Rejected p have "select_resource_permissions b' ?ids = Rejected e"
              by simp
            ultimately show ?thesis
              using res res' None False by (simp add: rolesAndPermissions_perm_rejected)
          next
            case pres: (Resolved pres)
            with p have pres': "select_resource_permissions b' ?ids = Resolved pres" by simp
            show ?thesis
            proof (cases "error pres")
              case no_error: None
              from res None False pres no_error res' pres' show ?thesis
                by (simp add: rolesAndPermissions_ok)
            next
              case (Some e)
              from res None False pres Some res' pres' show ?thesis
                by (simp add: rolesAndPermissions_perm_error)
            qed
          qed
        qed
      qed
    qed
    with g show ?thesis by (simp add: fetch_signed_in)
  qed
qed

text \<open>
  C9 as stated fails. Two runs against the same backend, whose current-user call throws: one
  starts from the initial state, one after the listener has set the session's user. The
  user values after the two runs differ.
\<close>

theorem C9_getUser_throws_user_depends_on_earlier_state_counterexample:
  "user (runEffects initialState (fetchUserAndRolesAndPermissions backendGetUserThrows)) \<noteq>
   user (runEffects (applyEffect initialState (SetUser (Some alice)))
     (fetchUserAndRolesAndPermissions backendGetUserThrows))"
  by (simp add: eval_defs)

text \<open>
  C9, amended. Two runs of the fetch routine that receive identical responses from the
  current-user call, the role query and the permission query produce identical roles and
  permissions values; they produce identical user values when the current-user call returns
  (when it throws, the user is left as it was before the run).
\<close>

theorem C9_fetch_deterministic:
  assumes "getUser b = getUser b'"
    and "\<forall>u. getUser b = Resolved (Some u) \<longrightarrow>
      select_user_roles b (id' u) = select_user_roles b' (id' u)"
    and "\<forall>ids. QueryResourcePermissions ids \<in> set (fetchUserAndRolesAndPermissions b) \<longrightarrow>
      select_resource_permissions b ids = select_resource_permissions b' ids"
  shows "roles (runEffects s (fetchUserAndRolesAndPermissions b)) =
      roles (runEffects s' (fetchUserAndRolesAndPermissions b')) \<and>
    permissions (runEffects s (fetchUserAndRolesAndPermissions b)) =
      permissions (runEffects s' (fetchUserAndRolesAndPermissions b')) \<and>
    (\<forall>authUser. getUser b = Resolved authUser \<longrightarrow>
      user (runEffects s (fetchUserAndRolesAndPermissions b)) =
        user (runEffects s' (fetchUserAndRolesAndPermissions b'))) \<and>
    (\<forall>e. getUser b = Rejected e \<longrightarrow>
      user (runEffects s (fetchUserAndRolesAndPermissions b)) = user s \<and>
      user (runEffects s' (fetchUserAndRolesAndPermissions b')) = user s')"
proof -
  have same: "fetchUserAndRolesAndPermissions b = fetchUserAndRolesAndPermissions b'"
    using assms by (rule fetch_same_responses)
  then have "roles (runEffects s (fetchUserAndRolesAndPermissions b)) =
      roles (runEffects s' (fetchUserAndRolesAndPermissions b'))"
    and "permissions (runEffects s (fetchUserAndRolesAndPermissions b)) =
      permissions (runEffects s' (fetchUserAndRolesAndPermissions b'))"
    using fetch_final_independent [of s b' s'] by simp_all
  moreover have "\<forall>authUser. getUser b = Resolved authUser \<longrightarrow>
      user (runEffects s (fetchUserAndRolesAndPermissions b)) =
        user (runEffects s' (fetchUserAndRolesAndPermissions b'))"
  proof (intro allI impI)
    fix authUser assume r: "getUser b = Resolved authUser"
    with assms(1) have r': "getUser b' = Resolved authUser" by simp
    show "user (runEffects s (fetchUserAndRolesAndPermissions b)) =
        user (runEffects s' (fetchUserAndRolesAndPermissions b'))"
      by (simp add: fetch_final_user r r')
  qed
  moreover have "\<forall>e. getUser b = Rejected e \<longrightarrow>
      user (runEffects s (fetchUserAndRolesAndPermissions b)) = user s \<and>
      user (runEffects s' (fetchUserAndRolesAndPermissions b')) = user s'"
  proof (intro allI impI)
    fix e assume r: "getUser b = Rejected e"
    with assms(1) have r': "getUser b' = Rejected e" by simp
    show "user (runEffects s (fetchUserAndRolesAndPermissions b)) = user s \<and>
        user (runEffects s' (fetchUserAndRolesAndPermissions b')) = user s'"
      by (simp add: fetch_final_user r r')
  qed
  ultimately show ?thesis by blast
qed

text \<open>
  C9, amended, at two backends that differ only in a response no run for Alice asks for, from
  two different starting states; and at the backend whose current-user call throws.
\<close>

theorem C9_fetch_deterministic_witness:
  "getUser backendAdmin = getUser backendAliceOnly \<and>
   select_user_roles backendAdmin ''u-2'' \<noteq> select_user_roles backendAliceOnly ''u-2'' \<and>
   initialState \<noteq> adminState \<and>
   roles (runEffects initialState (fetchUserAndRolesAndPermissions backendAdmin)) =
     roles (runEffects adminState (fetchUserAndRolesAndPermissions backendAliceOnly)) \<and>
   permissions (runEffects initialState (fetchUserAndRolesAndPermissions backendAdmin)) =
     permissions (runEffects adminState (fetchUserAndRolesAndPermissions backendAliceOnly)) \<and>
   user (runEffects initialState (fetchUserAndRolesAndPermissions backendAdmin)) =
     user (runEffects adminState (fetchUserAndRolesAndPermissions backendAliceOnly)) \<and>
   getUser backendGetUserThrows = Rejected (Error ''network'') \<and>
   user (runEffects initialState (fetchUserAndRolesAndPermissions backendGetUserThrows)) =
     user initialState \<and>
   user (runEffects adminState (fetchUserAndRolesAndPermissions backendGetUserThrows)) =
     user adminState"
proof -
  have a: "getUser backendAdmin = getUser backendAliceOnly"
    by (simp add: backendAliceOnly_def)
  have g: "getUser backendAdmin = Resolved (Some alice)"
    by (simp add: backendAdmin_def)
  have b: "\<forall>u. getUser backendAdmin = Resolved (Some u) \<longrightarrow>
      select_user_roles backendAdmin (id' u) = select_user_roles backendAliceOnly (id' u)"
    by (simp add: backendAliceOnly_def backendAdmin_def alice_def)
  have c: "\<forall>ids. QueryResourcePermissions ids
        \<in> set (fetchUserAndRolesAndPermissions backendAdmin) \<longrightarrow>
      select_resource_permissions backendAdmin ids =
        select_resource_permissions backendAliceOnly ids"
    by (simp add: backendAliceOnly_def)
  have d: "select_user_roles backendAdmin ''u-2'' \<noteq> select_user_roles backendAliceOnly ''u-2''"
    by (simp add: backendAliceOnly_def backendAdmin_def noRows_def)
  have i: "initialState \<noteq> adminState"
    by (simp add: adminState_eq initialState_def)
  have t: "getUser backendGetUserThrows = Rejected (Error ''network'')"
    by (simp add: sample_defs)
  have t1: "getUser backendGetUserThrows = getUser backendGetUserThrows"
    and t2: "\<forall>u. getUser backendGetUserThrows = Resolved (Some u) \<longrightarrow>
      select_user_roles backendGetUserThrows (id' u) =
        select_user_roles backendGetUserThrows (id' u)"
    and t3: "\<forall>ids. QueryResourcePermissions ids
        \<in> set (fetchUserAndRolesAndPermissions backendGetUserThrows) \<longrightarrow>
      select_resource_permissions backendGetUserThrows ids =
        select_resource_permissions backendGetUserThrows ids"
    by simp_all
  note det = C9_fetch_deterministic [OF a b c, of initialState adminState]
  note thrown = C9_fetch_deterministic [OF t1 t2 t3, of initialState adminState]
  from det g
  have "user (runEffects initialState (fetchUserAndRolesAndPermissions backendAdmin)) =
      user (runEffects adminState (fetchUserAndRolesAndPermissions backendAliceOnly))"
    by blast
  moreover from thrown t
  have "user (runEffects initialState (fetchUserAndRolesAndPermissions backendGetUserThrows)) =
      user initialState \<and>
    user (runEffects adminState (fetchUserAndRolesAndPermissions backendGetUserThrows)) =
      user adminState"
    by blast
  ultimately show ?thesis using det a d i t by blast
qed

subsection \<open>The hook\<close>

text \<open>
  C10. \<open>useUser\<close> throws if and only if the context is undefined, that is, when it is
  called outside a provider; otherwise it returns the provider's context value unchanged.
\<close>

theorem C10_useUser_throws_iff_no_provider:
  "(isl (useUser context) \<longleftrightarrow> context = None) \<and>
   (context = None \<longrightarrow>
      useUser context = Inl (Error ''useUser must be used within a UserProvider'')) \<and>
   (\<forall>c. context = Some c \<longrightarrow> useUser context = Inr c)"
  by (cases "context") (simp_all add: useUser_def)

text \<open>C10 outside a provider, and inside one that exposes the initial state.\<close>

theorem C10_useUser_throws_iff_no_provider_witness:
  "useUser None = Inl (Error ''useUser must be used within a UserProvider'') \<and>
   isl (useUser None) \<and>
   useUser (Some initialState) = Inr initialState \<and> \<not> isl (useUser (Some initialState))"
  using C10_useUser_throws_iff_no_provider [of None]
    C10_useUser_throws_iff_no_provider [of "Some initialState"]
  by simp

end
